theory Spec2Isabelle
  imports Complex_Main
begin

section \<open>JSON values, as the program reads and builds them\<close>

text \<open>
  The program uses Qt's JSON classes. A \<open>QJsonValue\<close> has one of seven types; a
  \<open>QJsonObject\<close> maps keys to values and is kept here as an association list in which
  a key occurs at most once (\<open>insert_value\<close> replaces the value of a key that is there).
  A JSON number is a double; it is modelled as a real number.
\<close>

datatype QJsonValue =
    JNull
  | JBool bool
  | JDouble real
  | JString string
  | JArray "QJsonValue list"
  | JObject "(string \<times> QJsonValue) list"
  | JUndefined

type_synonym QJsonObject = "(string \<times> QJsonValue) list"

text \<open>\<open>QJsonObject::contains(key)\<close>.\<close>

definition contains :: "QJsonObject \<Rightarrow> string \<Rightarrow> bool" where
  "contains obj key = (map_of obj key \<noteq> None)"

text \<open>\<open>QJsonObject::value(key)\<close>: the value stored under the key, \<open>Undefined\<close> when the
  key is absent.\<close>

definition value_at :: "QJsonObject \<Rightarrow> string \<Rightarrow> QJsonValue" where
  "value_at obj key = (case map_of obj key of None \<Rightarrow> JUndefined | Some v \<Rightarrow> v)"

text \<open>\<open>QJsonObject::insert(key, value)\<close>.\<close>

fun insert_value :: "string \<Rightarrow> QJsonValue \<Rightarrow> QJsonObject \<Rightarrow> QJsonObject" where
  "insert_value key v [] = [(key, v)]"
| "insert_value key v ((k, u) # rest) =
     (if k = key then (key, v) # rest else (k, u) # insert_value key v rest)"

text \<open>\<open>QJsonValue::isBool()\<close>.\<close>

fun isBool :: "QJsonValue \<Rightarrow> bool" where
  "isBool (JBool b) = True"
| "isBool v = False"

text \<open>\<open>QJsonValue::toBool()\<close>: the boolean of a value of type Bool, and the default
  \<open>false\<close> for a value of any other type.\<close>

fun toBool :: "QJsonValue \<Rightarrow> bool" where
  "toBool (JBool b) = b"
| "toBool v = False"

text \<open>\<open>QJsonValue::toDouble()\<close>: the number of a value of type Double, and the default
  \<open>0\<close> for a value of any other type.\<close>

fun toDouble :: "QJsonValue \<Rightarrow> real" where
  "toDouble (JDouble d) = d"
| "toDouble v = 0"

text \<open>The C++ cast \<open>(int) d\<close> truncates towards zero. (For a \<open>d\<close> outside the range
  of \<open>int\<close> the cast is undefined in C++; the model then gives the truncated number.)\<close>

definition int_of_double :: "real \<Rightarrow> int" where
  "int_of_double d = (if 0 \<le> d then \<lfloor>d\<rfloor> else \<lceil>d\<rceil>)"

text \<open>A \<open>QJsonDocument\<close> is null (the text was not JSON), an array or an object.\<close>

datatype QJsonDocument =
    NullDocument
  | ArrayDocument "QJsonValue list"
  | ObjectDocument QJsonObject

fun isObject :: "QJsonDocument \<Rightarrow> bool" where
  "isObject (ObjectDocument obj) = True"
| "isObject d = False"

text \<open>\<open>QJsonDocument::object()\<close>: the object of the document, the empty object when the
  document holds none.\<close>

fun object_of :: "QJsonDocument \<Rightarrow> QJsonObject" where
  "object_of (ObjectDocument obj) = obj"
| "object_of d = []"

text \<open>\<open>QString::arg(a)\<close> for a format whose only place marker is \<open>%1\<close>: every
  occurrence of the marker is replaced by \<open>a\<close>, and the inserted text is not scanned
  again.\<close>

fun arg :: "string \<Rightarrow> string \<Rightarrow> string" where
  "arg [] a = []"
| "arg [c] a = [c]"
| "arg (c # d # cs) a =
     (if c = CHR ''%'' \<and> d = CHR ''1'' then a @ arg cs a else c # arg (d # cs) a)"

section \<open>The service bus\<close>

text \<open>
  \<open>LSMessageToken\<close> is the unsigned integer by which luna-service2 names a call, and
  \<open>LSMESSAGE_TOKEN_INVALID\<close> is the token of no call, zero in the library's header.
\<close>

type_synonym LSMessageToken = nat

definition LSMESSAGE_TOKEN_INVALID :: LSMessageToken where
  "LSMESSAGE_TOKEN_INVALID = 0"

text \<open>
  A reply delivered by the bus. \<open>responseToken\<close> is the token of the call the reply
  answers; \<open>payload\<close> is the payload in parsed form, that is, the document
  \<open>QJsonDocument::fromJson\<close> returns for the payload's text.
\<close>

record LSMessage =
  responseToken :: LSMessageToken
  payload :: QJsonDocument

text \<open>
  The requests the program hands to the transport: \<open>LSCallFromApplication\<close> with its
  method URI, its payload, the application id it is sent for and whether a reply callback
  was passed; \<open>LSCallCancel\<close> with the token of the call to cancel.
\<close>

datatype bus_request =
    LSCallFromApplication string QJsonDocument string bool
  | LSCallCancel LSMessageToken

text \<open>
  What the transport returns to the caller: success (for a call that asked for one, with
  the token of the new call), or failure with the message of the \<open>LSError\<close>. The
  transport is not part of the program, so every operation that calls it takes the
  outcome of its call as an argument. A call that fails does not write the caller's
  token.
\<close>

datatype 'a ls_result = LSOk 'a | LSErr string

section \<open>Windows\<close>

text \<open>
  Modelled from the spec: the class \<open>WebApplicationWindow\<close> (webapplicationwindow.h and
  its implementation are not among the sources). A window is represented by what the
  application does with it: the arguments it was constructed with, whether \<open>show()\<close> has
  been called on it, and the scripts passed to \<open>executeScript()\<close>, in order.
\<close>

record WebApplicationWindow =
  win_url :: string
  win_windowType :: string
  win_headless :: bool
  win_shown :: bool
  win_scripts :: "string list"

definition new_WebApplicationWindow :: "string \<Rightarrow> string \<Rightarrow> bool \<Rightarrow> WebApplicationWindow" where
  "new_WebApplicationWindow url windowType headless =
     \<lparr>win_url = url, win_windowType = windowType, win_headless = headless,
      win_shown = False, win_scripts = []\<rparr>"

definition show_window :: "WebApplicationWindow \<Rightarrow> WebApplicationWindow" where
  "show_window win = win\<lparr>win_shown := True\<rparr>"

definition executeScript :: "string \<Rightarrow> WebApplicationWindow \<Rightarrow> WebApplicationWindow" where
  "executeScript script win = win\<lparr>win_scripts := win_scripts win @ [script]\<rparr>"

text \<open>
  A \<open>QWebNewPageRequest\<close> of the rendering layer: the URL the page asked for, and the web
  view the request was given (the view of a window is named by the window's position
  among the application's secondary windows).
\<close>

record QWebNewPageRequest =
  req_url :: string
  req_webView :: "nat option"

section \<open>The application instance\<close>

text \<open>
  Modelled from the spec: the class \<open>ApplicationDescription\<close> (applicationdescription.h
  is not among the sources), as the four values the application reads from it.
\<close>

record ApplicationDescription =
  desc_id :: string
  desc_headless :: bool
  desc_entryPoint :: string
  desc_icon :: string

text \<open>
  The members of \<open>WebApplication\<close>. The main window is owned by the application alone
  and \<open>mMainWindow\<close> is assigned once, in the constructor, so the window is kept by
  value. \<open>mManager\<close> only leads to the bus and is left out.
\<close>

record WebApplication =
  mDescription :: ApplicationDescription
  mProcessId :: string
  mActivityManagerToken :: LSMessageToken
  mIdentifier :: string
  mActivityId :: int
  mReady :: bool
  mParameters :: string
  mMainWindow :: WebApplicationWindow

datatype signal = Closed | ReadyChanged

text \<open>The lines the program writes with \<open>qWarning\<close> and \<open>qDebug\<close>, one constructor
  for each call in the source, with the values the message is formatted with.\<close>

datatype log_entry =
    WarnMalformedResponse QJsonDocument
  | WarnCreateFailed string
  | WarnAlreadyRegistered string
  | WarnRegisterFailed string string
  | WarnCancelFailed string string
  | WarnFocusFailed bool string string
  | DebugMainWindowClosed string
  | DebugRelaunch string string
  | DebugCreateWindow string

text \<open>
  The application together with what it has done to its surroundings: the secondary
  windows it has created, the requests it has handed to the bus, the signals it has
  emitted and the lines it has logged, each in order.
\<close>

record world =
  app :: WebApplication
  childWindows :: "WebApplicationWindow list"
  bus :: "bus_request list"
  signals :: "signal list"
  logged :: "log_entry list"

definition qLog :: "log_entry \<Rightarrow> world \<Rightarrow> world" where
  "qLog e w = w\<lparr>logged := logged w @ [e]\<rparr>"

definition emit_signal :: "signal \<Rightarrow> world \<Rightarrow> world" where
  "emit_signal sig w = w\<lparr>signals := signals w @ [sig]\<rparr>"

definition send :: "bus_request \<Rightarrow> world \<Rightarrow> world" where
  "send req w = w\<lparr>bus := bus w @ [req]\<rparr>"

subsection \<open>Accessors\<close>

definition app_id :: "WebApplication \<Rightarrow> string" where
  "app_id a = desc_id (mDescription a)"

definition identifier_of :: "WebApplication \<Rightarrow> string" where
  "identifier_of a = mIdentifier a"

definition activityId :: "WebApplication \<Rightarrow> int" where
  "activityId a = mActivityId a"

definition ready :: "WebApplication \<Rightarrow> bool" where
  "ready a = mReady a"

definition parameters :: "WebApplication \<Rightarrow> string" where
  "parameters a = mParameters a"

definition headless :: "WebApplication \<Rightarrow> bool" where
  "headless a = desc_headless (mDescription a)"

subsection \<open>Operations\<close>

definition setActivityId :: "int \<Rightarrow> world \<Rightarrow> world" where
  "setActivityId n w = w\<lparr>app := (app w)\<lparr>mActivityId := n\<rparr>\<rparr>"

text \<open>
  The reply handler. The source reads the payload and the application it was registered
  with (\<open>user_data\<close>); it does not read the token of the message. It returns \<open>true\<close> on
  every path, which the model leaves out.
\<close>

definition activityManagerCallback :: "LSMessage \<Rightarrow> world \<Rightarrow> world" where
  "activityManagerCallback message w =
     (let document = payload message in
      if \<not> isObject document then qLog (WarnMalformedResponse document) w
      else
        let rootObject = object_of document in
        if \<not> contains rootObject ''returnValue'' \<or> isBool (value_at rootObject ''returnValue'')
        then qLog (WarnMalformedResponse document) w
        else
          let returnValue = toBool (value_at rootObject ''returnValue'') in
          if \<not> returnValue then qLog (WarnCreateFailed (app_id (app w))) w
          else if \<not> contains rootObject ''activityId''
          then qLog (WarnMalformedResponse document) w
          else setActivityId (int_of_double (toDouble (value_at rootObject ''activityId''))) w)"

text \<open>The payload of the registration request.\<close>

definition create_payload :: "WebApplication \<Rightarrow> QJsonObject" where
  "create_payload a =
     (let activityObject = insert_value ''name'' (JString (app_id a)) [];
          activityObject = insert_value ''description'' (JString (mProcessId a)) activityObject;
          activityTypeObject = insert_value ''foreground'' (JBool True) [];
          activityObject = insert_value ''type'' (JObject activityTypeObject) activityObject;
          rootObject = insert_value ''activity'' (JObject activityObject) [];
          rootObject = insert_value ''subscribe'' (JBool True) rootObject;
          rootObject = insert_value ''start'' (JBool True) rootObject;
          rootObject = insert_value ''replace'' (JBool True) rootObject
      in rootObject)"

definition createActivity :: "LSMessageToken ls_result \<Rightarrow> world \<Rightarrow> world" where
  "createActivity outcome w =
     (if mActivityManagerToken (app w) \<noteq> LSMESSAGE_TOKEN_INVALID
      then qLog (WarnAlreadyRegistered (app_id (app w))) w
      else
        let w1 = send (LSCallFromApplication ''palm://com.palm.activitymanager/create''
                         (ObjectDocument (create_payload (app w))) (mIdentifier (app w)) True) w
        in case outcome of
             LSOk token \<Rightarrow> w1\<lparr>app := (app w1)\<lparr>mActivityManagerToken := token\<rparr>\<rparr>
           | LSErr msg \<Rightarrow> qLog (WarnRegisterFailed (app_id (app w1)) msg) w1)"

definition destroyActivity :: "unit ls_result \<Rightarrow> world \<Rightarrow> world" where
  "destroyActivity outcome w =
     (if mActivityManagerToken (app w) = LSMESSAGE_TOKEN_INVALID then w
      else
        let w1 = send (LSCallCancel (mActivityManagerToken (app w))) w
        in case outcome of
             LSErr msg \<Rightarrow> qLog (WarnCancelFailed (app_id (app w1)) msg) w1
           | LSOk u \<Rightarrow> w1\<lparr>app := (app w1)\<lparr>mActivityManagerToken := LSMESSAGE_TOKEN_INVALID\<rparr>\<rparr>)"

definition changeActivityFocus :: "bool \<Rightarrow> unit ls_result \<Rightarrow> world \<Rightarrow> world" where
  "changeActivityFocus focus outcome w =
     (if mActivityId (app w) < 0 then w
      else
        let rootObject = insert_value ''activityId'' (JDouble (of_int (mActivityId (app w)))) [];
            method = ''palm://com.palm.activitymanager/'' @ (if focus then ''focus'' else ''unfocus'');
            w1 = send (LSCallFromApplication method (ObjectDocument rootObject)
                         (mIdentifier (app w)) False) w
        in case outcome of
             LSOk u \<Rightarrow> w1
           | LSErr msg \<Rightarrow> qLog (WarnFocusFailed focus (app_id (app w1)) msg) w1)"

definition run :: "world \<Rightarrow> world" where
  "run w =
     (if \<not> headless (app w)
      then w\<lparr>app := (app w)\<lparr>mMainWindow := show_window (mMainWindow (app w))\<rparr>\<rparr>
      else w)"

text \<open>The format of the script: \<open>_webOS.relaunch("%1");\<close> (\<open>CHR 0x22\<close> is the double
  quote).\<close>

definition relaunch_format :: string where
  "relaunch_format = ''_webOS.relaunch('' @ [CHR 0x22] @ ''%1'' @ [CHR 0x22] @ '');''"

definition relaunch :: "string \<Rightarrow> world \<Rightarrow> world" where
  "relaunch params w =
     (let w1 = qLog (DebugRelaunch (app_id (app w)) params) w;
          a1 = (app w1)\<lparr>mParameters := params\<rparr>
      in w1\<lparr>app := a1\<lparr>mMainWindow := executeScript (arg relaunch_format params) (mMainWindow a1)\<rparr>\<rparr>)"

text \<open>\<open>createWindow\<close> changes the request as well (it gives it the new window's view),
  so it returns the request with the new state.\<close>

definition createWindow :: "QWebNewPageRequest \<Rightarrow> world \<Rightarrow> QWebNewPageRequest \<times> world" where
  "createWindow request w =
     (let w1 = qLog (DebugCreateWindow (req_url request)) w;
          windowType = ''card'';
          window = new_WebApplicationWindow (req_url request) windowType False;
          request1 = request\<lparr>req_webView := Some (length (childWindows w1))\<rparr>
      in (request1, w1\<lparr>childWindows := childWindows w1 @ [show_window window]\<rparr>))"

definition stagePreparing :: "world \<Rightarrow> world" where
  "stagePreparing w = w\<lparr>app := (app w)\<lparr>mReady := False\<rparr>\<rparr>"

definition stageReady :: "world \<Rightarrow> world" where
  "stageReady w = emit_signal ReadyChanged (w\<lparr>app := (app w)\<lparr>mReady := True\<rparr>\<rparr>)"

text \<open>The handler the constructor connects to the main window's \<open>closed\<close> signal.\<close>

definition mainWindowClosed :: "world \<Rightarrow> world" where
  "mainWindowClosed w = emit_signal Closed (qLog (DebugMainWindowClosed (app_id (app w))) w)"

text \<open>The constructor: the members' initial values, the main window, and
  \<open>createActivity()\<close>. Nothing has been sent, emitted or logged before.\<close>

definition new_WebApplication ::
  "string \<Rightarrow> string \<Rightarrow> ApplicationDescription \<Rightarrow> string \<Rightarrow> string \<Rightarrow> LSMessageToken ls_result \<Rightarrow> world"
where
  "new_WebApplication url windowType desc params processId outcome =
     createActivity outcome
       \<lparr>app = \<lparr>mDescription = desc,
                mProcessId = processId,
                mActivityManagerToken = LSMESSAGE_TOKEN_INVALID,
                mIdentifier = desc_id desc @ ''-'' @ processId,
                mActivityId = - 1,
                mReady = False,
                mParameters = params,
                mMainWindow = new_WebApplicationWindow url windowType (desc_headless desc)\<rparr>,
        childWindows = [], bus = [], signals = [], logged = []\<rparr>"

text \<open>The destructor.\<close>

definition delete_WebApplication :: "unit ls_result \<Rightarrow> world \<Rightarrow> world" where
  "delete_WebApplication outcome w = destroyActivity outcome w"

text \<open>Everything that can happen to an instance after its construction: a call of one
  of its methods, a reply, or the close of its main window.\<close>

datatype operation =
    SetActivityId int
  | ActivityManagerCallback LSMessage
  | CreateActivity "LSMessageToken ls_result"
  | DestroyActivity "unit ls_result"
  | ChangeActivityFocus bool "unit ls_result"
  | Run
  | Relaunch string
  | CreateWindow QWebNewPageRequest
  | StagePreparing
  | StageReady
  | MainWindowClosed

fun exec :: "operation \<Rightarrow> world \<Rightarrow> world" where
  "exec (SetActivityId n) w = setActivityId n w"
| "exec (ActivityManagerCallback m) w = activityManagerCallback m w"
| "exec (CreateActivity r) w = createActivity r w"
| "exec (DestroyActivity r) w = destroyActivity r w"
| "exec (ChangeActivityFocus focus r) w = changeActivityFocus focus r w"
| "exec Run w = run w"
| "exec (Relaunch p) w = relaunch p w"
| "exec (CreateWindow request) w = snd (createWindow request w)"
| "exec StagePreparing w = stagePreparing w"
| "exec StageReady w = stageReady w"
| "exec MainWindowClosed w = mainWindowClosed w"

fun exec_all :: "operation list \<Rightarrow> world \<Rightarrow> world" where
  "exec_all [] w = w"
| "exec_all (x # xs) w = exec_all xs (exec x w)"

text \<open>The operations that assign the activity id: \<open>setActivityId\<close> alone.\<close>

fun sets_activityId :: "operation \<Rightarrow> bool" where
  "sets_activityId (SetActivityId n) = True"
| "sets_activityId x = False"

subsection \<open>Example instances\<close>

text \<open>The instances and replies at which the theorems below are evaluated: a visible
  application whose registration call was given the token 7, a headless one whose call
  was given the token 9, and the successful registration reply with a given activity
  id.\<close>

definition example_desc :: ApplicationDescription where
  "example_desc =
     \<lparr>desc_id = ''com.example.app'', desc_headless = False,
      desc_entryPoint = ''file:///index.html'', desc_icon = ''icon.png''\<rparr>"

definition headless_desc :: ApplicationDescription where
  "headless_desc =
     \<lparr>desc_id = ''com.example.service'', desc_headless = True,
      desc_entryPoint = ''file:///service.html'', desc_icon = ''icon.png''\<rparr>"

definition example_world :: world where
  "example_world =
     new_WebApplication ''file:///index.html'' ''card'' example_desc [] ''123'' (LSOk 7)"

definition headless_world :: world where
  "headless_world =
     new_WebApplication ''file:///service.html'' ''card'' headless_desc [] ''456'' (LSOk 9)"

definition reply_ok :: "real \<Rightarrow> QJsonDocument" where
  "reply_ok n = ObjectDocument [(''returnValue'', JBool True), (''activityId'', JDouble n)]"

section \<open>Basic facts\<close>

lemma arg_relaunch_format:
  "arg relaunch_format p = ''_webOS.relaunch('' @ [CHR 0x22] @ p @ [CHR 0x22] @ '');''"
  by (simp add: relaunch_format_def)

lemma toBool_isBool: "toBool v \<Longrightarrow> isBool v"
  by (cases v) simp_all

text \<open>Past the check of \<open>returnValue\<close> the value is not a boolean, so \<open>toBool\<close> gives
  \<open>false\<close>: the handler logs on every path and changes nothing else.\<close>

lemma callback_frame:
  "activityManagerCallback m w = w\<lparr>logged := logged (activityManagerCallback m w)\<rparr>"
  by (auto simp: activityManagerCallback_def Let_def qLog_def dest: toBool_isBool)

lemma callback_app: "app (activityManagerCallback m w) = app w"
  by (subst callback_frame) simp

lemma example_world_eq:
  "example_world =
    \<lparr>app = \<lparr>mDescription = example_desc, mProcessId = ''123'', mActivityManagerToken = 7,
             mIdentifier = ''com.example.app-123'', mActivityId = - 1, mReady = False,
             mParameters = [],
             mMainWindow = new_WebApplicationWindow ''file:///index.html'' ''card'' False\<rparr>,
      childWindows = [],
      bus = [LSCallFromApplication ''palm://com.palm.activitymanager/create''
               (ObjectDocument (create_payload
                  \<lparr>mDescription = example_desc, mProcessId = ''123'',
                   mActivityManagerToken = LSMESSAGE_TOKEN_INVALID,
                   mIdentifier = ''com.example.app-123'', mActivityId = - 1, mReady = False,
                   mParameters = [],
                   mMainWindow = new_WebApplicationWindow ''file:///index.html'' ''card'' False\<rparr>))
               ''com.example.app-123'' True],
      signals = [], logged = []\<rparr>"
  by (simp add: example_world_def new_WebApplication_def createActivity_def send_def Let_def
      example_desc_def)

section \<open>The registration reply\<close>

text \<open>
  C1. The claim: a reply is malformed exactly when \<open>returnValue\<close> is absent or not a
  boolean (or, on success, \<open>activityId\<close> is absent), and the reply
  \<open>{returnValue: true, activityId: 42}\<close> delivered for the matching token sets the activity
  id to 42. The source tests \<open>isBool()\<close> where its negation is meant, so a boolean
  \<open>returnValue\<close> is what it rejects: delivered to the example instance (token 7, activity
  id \<open>-1\<close>), that reply is logged as malformed and the activity id stays \<open>-1\<close>.
\<close>

theorem C1_wellformed_reply_rejected:
  "activityManagerCallback \<lparr>responseToken = 7, payload = reply_ok 42\<rparr> example_world
     = qLog (WarnMalformedResponse (reply_ok 42)) example_world
   \<and> mActivityManagerToken (app example_world) = 7
   \<and> mActivityId (app example_world) = - 1
   \<and> mActivityId (app (activityManagerCallback \<lparr>responseToken = 7, payload = reply_ok 42\<rparr>
         example_world)) = - 1"
  by (simp add: activityManagerCallback_def reply_ok_def contains_def value_at_def qLog_def
      example_world_eq)

theorem C1_wellformed_reply_rejected_witness:
  "activityId (app (activityManagerCallback \<lparr>responseToken = 7, payload = reply_ok 42\<rparr>
      example_world)) \<noteq> 42"
  using C1_wellformed_reply_rejected by (simp add: activityId_def qLog_def)

section \<open>Readiness\<close>

lemma stageReady_funpow:
  "(stageReady ^^ n) w =
     w\<lparr>app := (app w)\<lparr>mReady := (if n = 0 then mReady (app w) else True)\<rparr>,
       signals := signals w @ replicate n ReadyChanged\<rparr>"
proof (induction n)
  case 0
  show ?case by simp
next
  case (Suc n)
  then show ?case
    by (simp add: stageReady_def emit_signal_def replicate_append_same)
qed

text \<open>
  C2, as claimed: \<open>stageReady()\<close> called N times in a row emits the ready notification
  once. It does not: \<open>stageReady()\<close> has no test of the state it is in, and two calls on
  the fresh example instance emit two notifications.
\<close>

theorem C2_counterexample:
  "signals example_world = []
   \<and> signals (stageReady (stageReady example_world)) = [ReadyChanged, ReadyChanged]"
  by (simp add: stageReady_def emit_signal_def example_world_eq)

text \<open>
  C2, amended: every call of \<open>stageReady()\<close> leaves the instance ready and emits the
  ready notification, so N calls in a row emit it N times; \<open>stagePreparing()\<close> makes the
  instance not ready and emits nothing, and a \<open>stageReady()\<close> after it emits the
  notification again.
\<close>

theorem C2_stageReady_notifies_every_call:
  "signals ((stageReady ^^ n) w) = signals w @ replicate n ReadyChanged
   \<and> mReady (app ((stageReady ^^ Suc n) w))
   \<and> \<not> mReady (app (stagePreparing w))
   \<and> signals (stagePreparing w) = signals w
   \<and> signals (stageReady (stagePreparing w)) = signals w @ [ReadyChanged]
   \<and> mReady (app (stageReady (stagePreparing w)))"
proof -
  have "signals ((stageReady ^^ n) w) = signals w @ replicate n ReadyChanged"
    by (subst stageReady_funpow) simp
  moreover have "mReady (app ((stageReady ^^ Suc n) w))"
    by (subst stageReady_funpow) simp
  ultimately show ?thesis
    by (simp add: stageReady_def stagePreparing_def emit_signal_def)
qed

theorem C2_stageReady_notifies_every_call_witness:
  "signals ((stageReady ^^ 3) example_world) = [ReadyChanged, ReadyChanged, ReadyChanged]
   \<and> signals (stageReady (stagePreparing (stageReady example_world)))
       = [ReadyChanged, ReadyChanged]"
  using C2_stageReady_notifies_every_call [of 3 example_world]
    C2_stageReady_notifies_every_call [of 1 "stageReady example_world"]
    C2_stageReady_notifies_every_call [of 1 example_world]
  by (simp add: example_world_eq numeral_3_eq_3)

section \<open>Cancelling the registration\<close>

text \<open>
  C3, as claimed: \<open>destroyActivity()\<close> on a registered instance always resets the token
  to the invalid sentinel and clears the activity id, also when the transport's cancel
  fails. It does not: on the example instance (token 7) a failed cancel leaves the token
  7, and after a successful cancel an activity id 42 is still 42.
\<close>

theorem C3_counterexample:
  "mActivityManagerToken (app example_world) = 7
   \<and> mActivityManagerToken (app (destroyActivity (LSErr ''no such call'') example_world)) = 7
   \<and> LSMESSAGE_TOKEN_INVALID = 0
   \<and> mActivityId (app (destroyActivity (LSOk ()) (setActivityId 42 example_world))) = 42"
  by (simp add: destroyActivity_def LSMESSAGE_TOKEN_INVALID_def send_def qLog_def Let_def
      setActivityId_def example_world_eq)

text \<open>
  C3, amended: when the token is the invalid sentinel, \<open>destroyActivity()\<close> does nothing.
  Otherwise it hands one cancel for the outstanding token to the transport; if the cancel
  succeeds the token becomes the invalid sentinel and nothing is logged, if it fails the
  token is kept and one warning is logged. The activity id is never changed.
\<close>

theorem C3_destroyActivity:
  "(mActivityManagerToken (app w) = LSMESSAGE_TOKEN_INVALID \<longrightarrow> destroyActivity outcome w = w)
   \<and> (mActivityManagerToken (app w) \<noteq> LSMESSAGE_TOKEN_INVALID \<longrightarrow>
        bus (destroyActivity outcome w) = bus w @ [LSCallCancel (mActivityManagerToken (app w))]
      \<and> mActivityManagerToken (app (destroyActivity (LSOk u) w)) = LSMESSAGE_TOKEN_INVALID
      \<and> logged (destroyActivity (LSOk u) w) = logged w
      \<and> mActivityManagerToken (app (destroyActivity (LSErr msg) w))
          = mActivityManagerToken (app w)
      \<and> logged (destroyActivity (LSErr msg) w)
          = logged w @ [WarnCancelFailed (app_id (app w)) msg])
   \<and> mActivityId (app (destroyActivity outcome w)) = mActivityId (app w)"
  by (cases outcome) (simp_all add: destroyActivity_def send_def qLog_def Let_def)

theorem C3_destroyActivity_witness:
  "mActivityManagerToken (app example_world) \<noteq> LSMESSAGE_TOKEN_INVALID
   \<and> mActivityManagerToken (app (destroyActivity (LSOk ()) example_world))
       = LSMESSAGE_TOKEN_INVALID
   \<and> mActivityManagerToken (app (destroyActivity (LSErr ''no such call'') example_world)) = 7
   \<and> destroyActivity (LSOk ()) (destroyActivity (LSOk ()) example_world)
       = destroyActivity (LSOk ()) example_world"
  using C3_destroyActivity [of example_world "LSOk ()" "()" "''no such call''"]
    C3_destroyActivity [of "destroyActivity (LSOk ()) example_world" "LSOk ()" "()" "[]"]
  by (simp add: example_world_eq LSMESSAGE_TOKEN_INVALID_def)

section \<open>Replies for another token\<close>

text \<open>
  C4. A reply whose token is not the instance's outstanding token changes neither the
  activity id nor any other member of the instance, nor its windows, its bus requests or
  its signals: the reply is only logged. (The handler never compares tokens; the
  property holds because, as the source stands, no reply at all gets past its checks.)
\<close>

theorem C4_mismatched_reply_changes_nothing:
  "responseToken message \<noteq> mActivityManagerToken (app w) \<Longrightarrow>
     app (activityManagerCallback message w) = app w
   \<and> childWindows (activityManagerCallback message w) = childWindows w
   \<and> bus (activityManagerCallback message w) = bus w
   \<and> signals (activityManagerCallback message w) = signals w"
  by (subst (1 2 3 4) callback_frame) simp

theorem C4_mismatched_reply_changes_nothing_witness:
  "responseToken \<lparr>responseToken = 3, payload = reply_ok 42\<rparr>
       \<noteq> mActivityManagerToken (app example_world)
   \<and> app (activityManagerCallback \<lparr>responseToken = 3, payload = reply_ok 42\<rparr> example_world)
       = app example_world
   \<and> mActivityId
       (app (activityManagerCallback \<lparr>responseToken = 3, payload = reply_ok 42\<rparr> example_world))
       = - 1"
  using C4_mismatched_reply_changes_nothing
    [of "\<lparr>responseToken = 3, payload = reply_ok 42\<rparr>" example_world]
  by (simp add: example_world_eq)

section \<open>Registering twice\<close>

lemma createActivity_registered:
  "mActivityManagerToken (app w) \<noteq> LSMESSAGE_TOKEN_INVALID \<Longrightarrow>
   createActivity outcome w = qLog (WarnAlreadyRegistered (app_id (app w))) w"
  by (simp add: createActivity_def)

lemma fold_createActivity_registered:
  "mActivityManagerToken (app w) \<noteq> LSMESSAGE_TOKEN_INVALID \<Longrightarrow>
   fold createActivity outcomes w =
     w\<lparr>logged := logged w @
         replicate (length outcomes) (WarnAlreadyRegistered (app_id (app w)))\<rparr>"
proof (induction outcomes arbitrary: w)
  case Nil
  show ?case by simp
next
  case (Cons r rs)
  have "mActivityManagerToken (app (createActivity r w)) \<noteq> LSMESSAGE_TOKEN_INVALID"
    using Cons.prems by (simp add: createActivity_registered qLog_def)
  from Cons.IH [OF this] Cons.prems show ?case
    by (simp add: createActivity_registered qLog_def replicate_append_same)
qed

text \<open>
  C5. While the token is not the invalid sentinel, a call of \<open>createActivity()\<close> logs one
  warning and changes nothing else, whatever the transport would have answered, and so
  does any sequence of such calls: the token, the bus requests and all other state stay as
  they were. Starting without a registration, once a call has been given a token, the
  calls after it send nothing and keep that token: one request, one token.
\<close>

theorem C5_createActivity_once:
  "(mActivityManagerToken (app w) \<noteq> LSMESSAGE_TOKEN_INVALID \<longrightarrow>
      createActivity outcome w
        = w\<lparr>logged := logged w @ [WarnAlreadyRegistered (app_id (app w))]\<rparr>
    \<and> fold createActivity outcomes w
        = w\<lparr>logged := logged w @
              replicate (length outcomes) (WarnAlreadyRegistered (app_id (app w)))\<rparr>)
   \<and> (mActivityManagerToken (app w) = LSMESSAGE_TOKEN_INVALID
        \<and> token \<noteq> LSMESSAGE_TOKEN_INVALID \<longrightarrow>
      mActivityManagerToken (app (fold createActivity (LSOk token # outcomes) w)) = token
    \<and> length (bus (fold createActivity (LSOk token # outcomes) w)) = Suc (length (bus w)))"
proof (intro conjI impI)
  assume a: "mActivityManagerToken (app w) \<noteq> LSMESSAGE_TOKEN_INVALID"
  show "createActivity outcome w
          = w\<lparr>logged := logged w @ [WarnAlreadyRegistered (app_id (app w))]\<rparr>"
    using a by (simp add: createActivity_registered qLog_def)
  show "fold createActivity outcomes w
          = w\<lparr>logged := logged w @
                replicate (length outcomes) (WarnAlreadyRegistered (app_id (app w)))\<rparr>"
    using a by (rule fold_createActivity_registered)
next
  assume b: "mActivityManagerToken (app w) = LSMESSAGE_TOKEN_INVALID
               \<and> token \<noteq> LSMESSAGE_TOKEN_INVALID"
  let ?w1 = "createActivity (LSOk token) w"
  have w1: "mActivityManagerToken (app ?w1) = token" "length (bus ?w1) = Suc (length (bus w))"
    using b by (simp_all add: createActivity_def send_def Let_def)
  then have reg: "mActivityManagerToken (app ?w1) \<noteq> LSMESSAGE_TOKEN_INVALID"
    using b by simp
  show "mActivityManagerToken (app (fold createActivity (LSOk token # outcomes) w)) = token"
    using fold_createActivity_registered [OF reg, of outcomes] w1 by simp
  show "length (bus (fold createActivity (LSOk token # outcomes) w)) = Suc (length (bus w))"
    using fold_createActivity_registered [OF reg, of outcomes] w1 by simp
qed

theorem C5_createActivity_once_witness:
  "mActivityManagerToken (app example_world) \<noteq> LSMESSAGE_TOKEN_INVALID
   \<and> mActivityManagerToken
       (app (fold createActivity [LSOk 8, LSErr ''busy'', LSOk 9] example_world)) = 7
   \<and> bus (fold createActivity [LSOk 8, LSErr ''busy'', LSOk 9] example_world)
       = bus example_world
   \<and> length (logged (fold createActivity [LSOk 8, LSErr ''busy'', LSOk 9] example_world)) = 3"
proof -
  have tok: "mActivityManagerToken (app example_world) = 7" and lg: "logged example_world = []"
    by (simp_all add: example_world_eq)
  then have h: "mActivityManagerToken (app example_world) \<noteq> LSMESSAGE_TOKEN_INVALID"
    by (simp add: LSMESSAGE_TOKEN_INVALID_def)
  from C5_createActivity_once [of example_world "LSOk 8" "[LSOk 8, LSErr ''busy'', LSOk 9]" 8] h
  have "fold createActivity [LSOk 8, LSErr ''busy'', LSOk 9] example_world =
        example_world\<lparr>logged := logged example_world @
          replicate (length [LSOk 8, LSErr ''busy'', LSOk (9::nat)])
            (WarnAlreadyRegistered (app_id (app example_world)))\<rparr>"
    by blast
  then show ?thesis using h tok lg by simp
qed

section \<open>The instance identifier\<close>

lemma exec_identifier: "mIdentifier (app (exec x w)) = mIdentifier (app w)"
  by (cases x)
    (simp_all add: setActivityId_def callback_app createActivity_def destroyActivity_def
      changeActivityFocus_def run_def relaunch_def createWindow_def stagePreparing_def
      stageReady_def mainWindowClosed_def qLog_def send_def emit_signal_def Let_def
      split: ls_result.split)

lemma exec_all_identifier: "mIdentifier (app (exec_all xs w)) = mIdentifier (app w)"
  by (induction xs arbitrary: w) (simp_all add: exec_identifier)

lemma new_WebApplication_identifier:
  "mIdentifier (app (new_WebApplication url windowType desc params processId outcome))
     = desc_id desc @ ''-'' @ processId"
  by (simp add: new_WebApplication_def createActivity_def qLog_def send_def Let_def
      split: ls_result.split)

text \<open>
  C6. The identifier of a constructed instance is the application id, a hyphen and the
  process id, and it is the same after any sequence of operations on the instance.
\<close>

theorem C6_identifier:
  "identifier_of (app (new_WebApplication url windowType desc params processId outcome))
     = desc_id desc @ ''-'' @ processId
   \<and> identifier_of
       (app (exec_all xs (new_WebApplication url windowType desc params processId outcome)))
     = desc_id desc @ ''-'' @ processId"
  by (simp add: identifier_of_def exec_all_identifier new_WebApplication_identifier)

theorem C6_identifier_witness:
  "identifier_of (app example_world) = ''com.example.app-123''
   \<and> identifier_of (app (exec_all
        [Relaunch ''foo=bar'', StageReady, SetActivityId 5, DestroyActivity (LSOk ()),
         CreateActivity (LSOk 8),
         ActivityManagerCallback \<lparr>responseToken = 8, payload = reply_ok 42\<rparr>]
        example_world)) = ''com.example.app-123''"
  using C6_identifier [of "''file:///index.html''" "''card''" example_desc "[]" "''123''" "LSOk 7"
      "[Relaunch ''foo=bar'', StageReady, SetActivityId 5, DestroyActivity (LSOk ()),
        CreateActivity (LSOk 8),
        ActivityManagerCallback \<lparr>responseToken = 8, payload = reply_ok 42\<rparr>]"]
  by (simp add: example_world_def example_desc_def)

section \<open>Relaunch\<close>

text \<open>
  C7. \<open>relaunch(p)\<close> stores \<open>p\<close> as the parameters and passes one script to the main
  window, a script that contains \<open>p\<close>; the ready state, the activity id, the token, the
  secondary windows and the main window's url, type, headless flag and visibility are as
  before, and nothing is sent on the bus or emitted.
\<close>

theorem C7_relaunch:
  "mParameters (app (relaunch p w)) = p
   \<and> win_scripts (mMainWindow (app (relaunch p w)))
       = win_scripts (mMainWindow (app w)) @ [arg relaunch_format p]
   \<and> (\<exists>pre post. arg relaunch_format p = pre @ p @ post)
   \<and> mReady (app (relaunch p w)) = mReady (app w)
   \<and> mActivityId (app (relaunch p w)) = mActivityId (app w)
   \<and> mActivityManagerToken (app (relaunch p w)) = mActivityManagerToken (app w)
   \<and> childWindows (relaunch p w) = childWindows w
   \<and> win_url (mMainWindow (app (relaunch p w))) = win_url (mMainWindow (app w))
   \<and> win_windowType (mMainWindow (app (relaunch p w))) = win_windowType (mMainWindow (app w))
   \<and> win_headless (mMainWindow (app (relaunch p w))) = win_headless (mMainWindow (app w))
   \<and> win_shown (mMainWindow (app (relaunch p w))) = win_shown (mMainWindow (app w))
   \<and> bus (relaunch p w) = bus w
   \<and> signals (relaunch p w) = signals w"
proof -
  have "arg relaunch_format p = (''_webOS.relaunch('' @ [CHR 0x22]) @ p @ ([CHR 0x22] @ '');'')"
    by (simp add: arg_relaunch_format)
  then have "\<exists>pre post. arg relaunch_format p = pre @ p @ post"
    by blast
  then show ?thesis
    by (simp add: relaunch_def executeScript_def qLog_def Let_def)
qed

theorem C7_relaunch_witness:
  "parameters (app (relaunch ''foo=bar'' example_world)) = ''foo=bar''
   \<and> win_scripts (mMainWindow (app example_world)) = []
   \<and> length (win_scripts (mMainWindow (app (relaunch ''foo=bar'' example_world)))) = 1
   \<and> ready (app (relaunch ''foo=bar'' example_world)) = ready (app example_world)"
  using C7_relaunch [of "''foo=bar''" example_world]
  by (simp add: parameters_def ready_def example_world_eq new_WebApplicationWindow_def)

text \<open>
  C9. The script \<open>relaunch(p)\<close> passes to the main window is \<open>_webOS.relaunch("\<close>, then
  \<open>p\<close> character for character, then \<open>");\<close>: nothing in \<open>p\<close> is escaped, a double quote
  or a backslash included.
\<close>

theorem C9_relaunch_script_verbatim:
  "win_scripts (mMainWindow (app (relaunch p w)))
     = win_scripts (mMainWindow (app w)) @
       [''_webOS.relaunch('' @ [CHR 0x22] @ p @ [CHR 0x22] @ '');'']"
  by (simp add: relaunch_def executeScript_def qLog_def Let_def arg_relaunch_format)

theorem C9_relaunch_script_verbatim_witness:
  "win_scripts (mMainWindow
      (app (relaunch [CHR ''a'', CHR 0x22, CHR 0x5C, CHR ''b''] example_world)))
     = [''_webOS.relaunch('' @ [CHR 0x22] @ [CHR ''a'', CHR 0x22, CHR 0x5C, CHR ''b'']
          @ [CHR 0x22] @ '');'']"
  using C9_relaunch_script_verbatim [of "[CHR ''a'', CHR 0x22, CHR 0x5C, CHR ''b'']" example_world]
  by (simp add: example_world_eq new_WebApplicationWindow_def)

section \<open>Secondary windows\<close>

text \<open>
  C8. \<open>createWindow\<close> adds one secondary window, constructed for the requested URL with
  the headless flag off, and \<open>show()\<close> has been called on it when \<open>createWindow\<close>
  returns; this holds for every instance, headless or not. The request is given the new
  window's view, and the instance's members are unchanged.
\<close>

theorem C8_secondary_window:
  "childWindows (snd (createWindow request w))
     = childWindows w @
       [\<lparr>win_url = req_url request, win_windowType = ''card'', win_headless = False,
         win_shown = True, win_scripts = []\<rparr>]
   \<and> req_webView (fst (createWindow request w)) = Some (length (childWindows w))
   \<and> app (snd (createWindow request w)) = app w"
  by (simp add: createWindow_def new_WebApplicationWindow_def show_window_def qLog_def Let_def)

theorem C8_secondary_window_witness:
  "headless (app headless_world)
   \<and> win_headless (mMainWindow (app headless_world))
   \<and> \<not> win_headless (last (childWindows (snd (createWindow
          \<lparr>req_url = ''file:///dialog.html'', req_webView = None\<rparr> headless_world))))
   \<and> win_shown (last (childWindows (snd (createWindow
          \<lparr>req_url = ''file:///dialog.html'', req_webView = None\<rparr> headless_world))))"
  using C8_secondary_window
    [of "\<lparr>req_url = ''file:///dialog.html'', req_webView = None\<rparr>" headless_world]
  by (simp add: headless_world_def new_WebApplication_def createActivity_def send_def Let_def
      headless_desc_def new_WebApplicationWindow_def headless_def)

section \<open>Focus\<close>

lemma exec_activityId:
  "\<not> sets_activityId x \<Longrightarrow> mActivityId (app (exec x w)) = mActivityId (app w)"
  by (cases x)
    (simp_all add: callback_app createActivity_def destroyActivity_def
      changeActivityFocus_def run_def relaunch_def createWindow_def stagePreparing_def
      stageReady_def mainWindowClosed_def qLog_def send_def emit_signal_def Let_def
      split: ls_result.split)

lemma exec_all_activityId:
  "\<forall>x\<in>set xs. \<not> sets_activityId x \<Longrightarrow>
   mActivityId (app (exec_all xs w)) = mActivityId (app w)"
  by (induction xs arbitrary: w) (simp_all add: exec_activityId)

text \<open>
  \<open>changeActivityFocus(focus)\<close> hands a request to the bus exactly when the stored
  activity id is at least 0 (the focus or unfocus request for that id), and
  \<open>setActivityId\<close> stores its argument whatever its sign. So with a negative activity id
  stored, as with the initial \<open>-1\<close>, a focus or unfocus does nothing, and this stays so
  through any operations other than \<open>setActivityId\<close>.
\<close>

lemma changeActivityFocus_guard:
  "(bus (changeActivityFocus focus outcome w) \<noteq> bus w) = (0 \<le> mActivityId (app w))
   \<and> (0 \<le> mActivityId (app w) \<longrightarrow>
        bus (changeActivityFocus focus outcome w) = bus w @
          [LSCallFromApplication
             (''palm://com.palm.activitymanager/'' @ (if focus then ''focus'' else ''unfocus''))
             (ObjectDocument [(''activityId'', JDouble (of_int (mActivityId (app w))))])
             (mIdentifier (app w)) False])
   \<and> mActivityId (app (setActivityId n w)) = n
   \<and> (n < 0 \<longrightarrow> changeActivityFocus focus outcome (setActivityId n w) = setActivityId n w)
   \<and> (mActivityId (app w) < 0 \<and> (\<forall>x\<in>set xs. \<not> sets_activityId x) \<longrightarrow>
        changeActivityFocus focus outcome (exec_all xs w) = exec_all xs w)"
proof (intro conjI impI)
  show "(bus (changeActivityFocus focus outcome w) \<noteq> bus w) = (0 \<le> mActivityId (app w))"
    by (cases outcome) (auto simp: changeActivityFocus_def send_def qLog_def Let_def)
next
  assume "0 \<le> mActivityId (app w)"
  then show "bus (changeActivityFocus focus outcome w) = bus w @
          [LSCallFromApplication
             (''palm://com.palm.activitymanager/'' @ (if focus then ''focus'' else ''unfocus''))
             (ObjectDocument [(''activityId'', JDouble (of_int (mActivityId (app w))))])
             (mIdentifier (app w)) False]"
    by (cases outcome) (simp_all add: changeActivityFocus_def send_def qLog_def Let_def)
next
  show "mActivityId (app (setActivityId n w)) = n"
    by (simp add: setActivityId_def)
next
  assume "n < 0"
  then show "changeActivityFocus focus outcome (setActivityId n w) = setActivityId n w"
    by (simp add: changeActivityFocus_def setActivityId_def)
next
  assume "mActivityId (app w) < 0 \<and> (\<forall>x\<in>set xs. \<not> sets_activityId x)"
  then have "mActivityId (app (exec_all xs w)) < 0"
    by (simp add: exec_all_activityId)
  then show "changeActivityFocus focus outcome (exec_all xs w) = exec_all xs w"
    by (simp add: changeActivityFocus_def)
qed

text \<open>
  C10. The claim: \<open>changeActivityFocus\<close> sends a request exactly when the stored activity
  id is at least 0, and a successful registration reply stores its activity id whatever
  its sign, so that a reply with a negative id leaves every later focus or unfocus a
  no-op. The guard is as claimed (\<open>changeActivityFocus_guard\<close>), but as the source
  stands the reply is not stored: the successful reply with the id \<open>-7\<close> is logged as
  malformed and leaves the activity id of the example instance at \<open>-1\<close>; delivered to
  the instance after \<open>setActivityId(5)\<close> it leaves the 5, and the next focus sends the
  focus request for the activity 5.
\<close>

theorem C10_negative_reply_not_stored:
  "activityManagerCallback \<lparr>responseToken = 7, payload = reply_ok (- 7)\<rparr> example_world
     = qLog (WarnMalformedResponse (reply_ok (- 7))) example_world
   \<and> mActivityId (app (activityManagerCallback
         \<lparr>responseToken = 7, payload = reply_ok (- 7)\<rparr> example_world)) = - 1
   \<and> mActivityId (app (activityManagerCallback
         \<lparr>responseToken = 7, payload = reply_ok (- 7)\<rparr> (setActivityId 5 example_world))) = 5
   \<and> bus (changeActivityFocus True (LSOk ())
        (activityManagerCallback \<lparr>responseToken = 7, payload = reply_ok (- 7)\<rparr>
          (setActivityId 5 example_world)))
     = bus example_world @
       [LSCallFromApplication ''palm://com.palm.activitymanager/focus''
          (ObjectDocument [(''activityId'', JDouble 5)]) ''com.example.app-123'' False]"
  by (simp add: activityManagerCallback_def reply_ok_def contains_def value_at_def qLog_def
      changeActivityFocus_def setActivityId_def send_def Let_def example_world_eq)

theorem C10_negative_reply_not_stored_witness:
  "activityId (app (activityManagerCallback
      \<lparr>responseToken = 7, payload = reply_ok (- 7)\<rparr> example_world)) \<noteq> - 7
   \<and> activityId (app (activityManagerCallback
      \<lparr>responseToken = 7, payload = reply_ok (- 7)\<rparr> (setActivityId 5 example_world))) = 5"
  using C10_negative_reply_not_stored [THEN conjunct2, THEN conjunct1]
    C10_negative_reply_not_stored [THEN conjunct2, THEN conjunct2, THEN conjunct1]
  by (simp add: activityId_def)

end
